theory Spec2Isabelle
  imports Complex_Main
begin

section \<open>Data model (types.ts)\<close>

text \<open>
  A JavaScript string is modelled as a \<^typ>\<open>string\<close>; one list element stands for one
  code unit, so \<^term>\<open>length\<close> is the \<^verbatim>\<open>.length\<close> of the source. Values of
  type \<^verbatim>\<open>unknown\<close> (tool input and output) are opaque to the service and are
  type parameters. An optional field is an \<^typ>\<open>'a option\<close>.
\<close>

record Message =
  role :: string
  content :: string

record ('i, 'o) ToolCallRecord =
  name :: string
  "input" :: 'i
  "output" :: "'o option"
  error :: "string option"

record Usage =
  inputTokens :: int
  outputTokens :: int

record ('i, 'o) ChatResponse =
  content :: string
  toolCalls :: "('i, 'o) ToolCallRecord list option"
  usage :: Usage
  sessionId :: string

record ChatOptions =
  sessionId :: "string option"
  enableTools :: "bool option"
  skillId :: "string option"

record ChatRequest =
  messages :: "Message list option"
  sessionId :: "string option"
  stream :: "bool option"
  enableTools :: "bool option"
  skillId :: "string option"

record ErrorResponse =
  error :: string
  message :: string
  statusCode :: nat
  timestamp :: string

section \<open>Ambient values and the agent runtime\<close>

text \<open>
  The reads of the clock, of the random generator and of the process environment are
  inputs of the model: \<open>dateNow\<close> is the value of \<^verbatim>\<open>Date.now()\<close>,
  \<open>mathRandom36\<close> the text of \<^verbatim>\<open>Math.random().toString(36)\<close>, \<open>isoTimestamp\<close>
  the text of \<^verbatim>\<open>new Date().toISOString()\<close> and \<open>nodeEnv\<close> the variable
  \<^verbatim>\<open>NODE_ENV\<close>.
\<close>

record Ambient =
  dateNow :: nat
  mathRandom36 :: string
  isoTimestamp :: string
  nodeEnv :: string

text \<open>
  The events the loop of \<^verbatim>\<open>AgentService.chat\<close> tells apart. An assistant event
  carries the content array of its message (\<open>None\<close> when the message or the array is
  missing); a block of that array either has a \<^verbatim>\<open>text\<close> property or not.
\<close>

datatype block = TextBlock string | OtherBlock

datatype ('i, 'o) SDKMessage =
    AssistantMessage "block list option"
  | ToolStart string 'i
  | ToolEnd string "'o option" "string option"
  | OtherMessage

text \<open>
  The asynchronous sequence returned by \<^verbatim>\<open>query\<close>: the events it yields, in order,
  and the error it raises after them, if it does.
\<close>

record ('i, 'o) QueryStream =
  events :: "('i, 'o) SDKMessage list"
  failure :: "string option"

record AgentService =
  initialized :: bool

text \<open>
  What a request can change outside of its own reply: the singleton service instance,
  the prompts handed to the runtime's \<^verbatim>\<open>query\<close>, and the error log.
\<close>

record World =
  agentServiceInstance :: "AgentService option"
  queries :: "string list"
  logged :: "string list"

section \<open>Prompt construction, session ids and token estimates (agent-service.ts)\<close>

definition LF :: char where
  "LF = CHR 0x0A"

text \<open>The white space and line terminators that \<^verbatim>\<open>String.prototype.trim\<close> strips,
  among the code units below 256.\<close>

definition isWhiteSpace :: "char \<Rightarrow> bool" where
  "isWhiteSpace c \<longleftrightarrow>
     c = CHR 0x09 \<or> c = CHR 0x0A \<or> c = CHR 0x0B \<or> c = CHR 0x0C \<or> c = CHR 0x0D \<or>
     c = CHR 0x20 \<or> c = CHR 0xA0"

definition trim :: "string \<Rightarrow> string" where
  "trim s = rev (dropWhile isWhiteSpace (rev (dropWhile isWhiteSpace s)))"

text \<open>One round of the loop of \<^verbatim>\<open>buildPrompt\<close>: the \<^verbatim>\<open>switch\<close> has three
  cases and no default, so a message with any other role adds nothing.\<close>

definition appendMessage :: "string \<Rightarrow> Message \<Rightarrow> string" where
  "appendMessage prompt msg =
     (if role msg = ''system'' then
        prompt @ ''<system>'' @ Message.content msg @ ''</system>'' @ [LF, LF]
      else if role msg = ''user'' then
        prompt @ ''<user>'' @ Message.content msg @ ''</user>'' @ [LF, LF]
      else if role msg = ''assistant'' then
        prompt @ ''<assistant>'' @ Message.content msg @ ''</assistant>'' @ [LF, LF]
      else prompt)"

definition buildPrompt :: "Message list \<Rightarrow> string" where
  "buildPrompt msgs = trim (foldl appendMessage [] msgs)"

text \<open>The decimal text of a number, as a template literal prints it.\<close>

fun decimal :: "nat \<Rightarrow> string" where
  "decimal n =
     (if n < 10 then [''0123456789'' ! n]
      else decimal (n div 10) @ [''0123456789'' ! (n mod 10)])"

declare decimal.simps [simp del]

text \<open>\<^verbatim>\<open>s.substring(2, 11)\<close>: the code units 2 to 10 of \<open>s\<close>, fewer when \<open>s\<close> is
  shorter.\<close>

definition generateSessionId :: "Ambient \<Rightarrow> string" where
  "generateSessionId amb =
     ''sess_'' @ decimal (dateNow amb) @ ''_'' @ take 9 (drop 2 (mathRandom36 amb))"

text \<open>\<^verbatim>\<open>Math.ceil(text.length / 4)\<close>: the quotient is exact in floating point (a
  division of an integer below \<open>2^53\<close> by a power of two), so it is the real quotient.\<close>

definition estimateTokens :: "string \<Rightarrow> int" where
  "estimateTokens text = \<lceil>real (length text) / 4\<rceil>"

section \<open>The aggregation loop (agent-service.ts, AgentService.chat)\<close>

text \<open>A value of type \<^verbatim>\<open>string | undefined\<close> is truthy when it is a non-empty
  string.\<close>

definition truthy :: "string option \<Rightarrow> bool" where
  "truthy s = (case s of None \<Rightarrow> False | Some t \<Rightarrow> t \<noteq> [])"

text \<open>\<^verbatim>\<open>Array.prototype.find\<close> returns a reference to the first element that
  satisfies the predicate; the reference is modelled by the element's index.\<close>

primrec findFirst :: "('a \<Rightarrow> bool) \<Rightarrow> 'a list \<Rightarrow> nat option" where
  "findFirst p [] = None"
| "findFirst p (x # xs) = (if p x then Some 0 else map_option Suc (findFirst p xs))"

definition appendText :: "string \<Rightarrow> block list option \<Rightarrow> string" where
  "appendText fullResponse c =
     (case c of
        None \<Rightarrow> fullResponse
      | Some blocks \<Rightarrow>
          foldl (\<lambda>acc b. case b of TextBlock t \<Rightarrow> acc @ t | OtherBlock \<Rightarrow> acc)
            fullResponse blocks)"

definition toolEnd ::
  "('i, 'o) ToolCallRecord list \<Rightarrow> string \<Rightarrow> 'o option \<Rightarrow> string option \<Rightarrow>
   ('i, 'o) ToolCallRecord list" where
  "toolEnd calls toolName out err =
     (case findFirst (\<lambda>tc. name tc = toolName) calls of
        None \<Rightarrow> calls
      | Some i \<Rightarrow>
          (let existingCall = calls ! i in
           if truthy err
           then calls[i := existingCall\<lparr>ToolCallRecord.error := err\<rparr>]
           else calls[i := existingCall\<lparr>output := out\<rparr>]))"

text \<open>The body of the \<^verbatim>\<open>for await\<close> loop, on the pair of \<^verbatim>\<open>fullResponse\<close>
  and \<^verbatim>\<open>toolCalls\<close>.\<close>

fun consume ::
  "string \<times> ('i, 'o) ToolCallRecord list \<Rightarrow> ('i, 'o) SDKMessage \<Rightarrow>
   string \<times> ('i, 'o) ToolCallRecord list" where
  "consume (fullResponse, calls) (AssistantMessage c) = (appendText fullResponse c, calls)"
| "consume (fullResponse, calls) (ToolStart toolName inp) =
     (fullResponse,
      calls @ [\<lparr>name = toolName, input = inp, output = None, ToolCallRecord.error = None\<rparr>])"
| "consume (fullResponse, calls) (ToolEnd toolName out err) =
     (fullResponse, toolEnd calls toolName out err)"
| "consume (fullResponse, calls) OtherMessage = (fullResponse, calls)"

definition aggregate ::
  "('i, 'o) SDKMessage list \<Rightarrow> string \<times> ('i, 'o) ToolCallRecord list" where
  "aggregate evs = foldl consume ([], []) evs"

text \<open>
  \<^verbatim>\<open>AgentService.chat\<close>. The result is \<open>Inl\<close> of the error message when the call
  throws. The check of \<open>initialized\<close> is outside of the \<^verbatim>\<open>try\<close> block; an error of
  the event sequence is logged and thrown again, and the partial output is lost.
\<close>

definition chat ::
  "Ambient \<Rightarrow> (string \<Rightarrow> ('i, 'o) QueryStream) \<Rightarrow> AgentService \<Rightarrow> Message list \<Rightarrow>
   ChatOptions \<Rightarrow> World \<Rightarrow> (string + ('i, 'o) ChatResponse) \<times> World" where
  "chat amb query this msgs options w =
     (if \<not> initialized this then (Inl ''AgentService not initialized'', w)
      else
        let prompt = buildPrompt msgs;
            agentQuery = query prompt;
            w1 = w\<lparr>queries := queries w @ [prompt]\<rparr>;
            (fullResponse, calls) = aggregate (events agentQuery)
        in case failure agentQuery of
             Some e \<Rightarrow> (Inl e, w1\<lparr>logged := logged w1 @ [e]\<rparr>)
           | None \<Rightarrow>
               (Inr \<lparr>ChatResponse.content = fullResponse,
                     toolCalls = (if length calls > 0 then Some calls else None),
                     usage = \<lparr>inputTokens = estimateTokens prompt,
                               outputTokens = estimateTokens fullResponse\<rparr>,
                     ChatResponse.sessionId =
                       (if truthy (ChatOptions.sessionId options)
                        then the (ChatOptions.sessionId options)
                        else generateSessionId amb)\<rparr>,
                w1))"

section \<open>The chat route (routes/chat.ts)\<close>

text \<open>What the schema of the route can find wrong in a body of the type
  \<^verbatim>\<open>ChatRequest\<close>: the required \<^verbatim>\<open>messages\<close> is missing, or the role of the message
  at the given index is none of the \<^verbatim>\<open>enum\<close>. This is the \<^verbatim>\<open>validation\<close> property
  of the error that reaches the error handler.\<close>

datatype SchemaError = MissingMessages | RoleNotAllowed nat

text \<open>The bodies that are sent: an error envelope, the envelope of a validation error
  with its \<^verbatim>\<open>details\<close>, or the chat response.\<close>

datatype ('i, 'o) Payload =
    ErrorBody ErrorResponse
  | ValidationErrorBody ErrorResponse SchemaError
  | ChatBody "('i, 'o) ChatResponse"

record ('i, 'o) Reply =
  status :: nat
  payload :: "('i, 'o) Payload"

text \<open>\<^verbatim>\<open>getAgentService\<close>: the singleton is built on first use; its constructor sets
  \<open>initialized\<close>.\<close>

definition newAgentService :: AgentService where
  "newAgentService = \<lparr>initialized = True\<rparr>"

definition getAgentService :: "World \<Rightarrow> AgentService \<times> World" where
  "getAgentService w =
     (case agentServiceInstance w of
        None \<Rightarrow> (newAgentService, w\<lparr>agentServiceInstance := Some newAgentService\<rparr>)
      | Some s \<Rightarrow> (s, w))"

definition badRequest :: "Ambient \<Rightarrow> string \<Rightarrow> ('i, 'o) Reply" where
  "badRequest amb msg =
     \<lparr>status = 400,
      payload = ErrorBody \<lparr>ErrorResponse.error = ''Bad Request'', message = msg,
                           statusCode = 400, timestamp = isoTimestamp amb\<rparr>\<rparr>"

text \<open>The handler of \<^verbatim>\<open>POST /chat\<close>, on the parsed body. A missing
  \<^verbatim>\<open>messages\<close> field is \<open>None\<close>.\<close>

definition chatHandler ::
  "Ambient \<Rightarrow> (string \<Rightarrow> ('i, 'o) QueryStream) \<Rightarrow> ChatRequest \<Rightarrow> World \<Rightarrow>
   ('i, 'o) Reply \<times> World" where
  "chatHandler amb query body w =
     (case messages body of
        None \<Rightarrow> (badRequest amb ''messages array is required and must not be empty'', w)
      | Some msgs \<Rightarrow>
          if length msgs = 0
          then (badRequest amb ''messages array is required and must not be empty'', w)
          else if list_ex (\<lambda>msg. role msg = [] \<or> Message.content msg = []) msgs
          then (badRequest amb ''Each message must have role and content'', w)
          else
            let (agentService, w1) = getAgentService w;
                (result, w2) =
                  chat amb query agentService msgs
                    \<lparr>ChatOptions.sessionId = ChatRequest.sessionId body,
                     ChatOptions.enableTools = Some (ChatRequest.enableTools body \<noteq> Some False),
                     ChatOptions.skillId = ChatRequest.skillId body\<rparr> w1
            in (case result of
                 Inr response \<Rightarrow> (\<lparr>status = 200, payload = ChatBody response\<rparr>, w2)
               | Inl err \<Rightarrow>
                   (\<lparr>status = 500,
                     payload = ErrorBody
                       \<lparr>ErrorResponse.error = ''Internal Server Error'',
                        message = (if nodeEnv amb = ''production''
                                   then ''Failed to process chat request'' else err),
                        statusCode = 500, timestamp = isoTimestamp amb\<rparr>\<rparr>,
                    w2\<lparr>logged := logged w2 @ [err]\<rparr>)))"

section \<open>The schema of the route and the error handler (routes/chat.ts, errorHandler.ts)\<close>

text \<open>The error object that the framework hands to \<^verbatim>\<open>errorHandler\<close>.\<close>

record FastifyError =
  errorName :: string
  errorMessage :: string
  errorStatusCode :: "nat option"
  validation :: "SchemaError option"

definition roleEnum :: "string list" where
  "roleEnum = [''user'', ''assistant'', ''system'']"

text \<open>
  The \<^verbatim>\<open>schema.body\<close> of \<^verbatim>\<open>POST /chat\<close>, on a body of the type
  \<^verbatim>\<open>ChatRequest\<close>: \<^verbatim>\<open>messages\<close> is required, and the role of every item is one of
  the \<^verbatim>\<open>enum\<close>. The schema asks for no minimal number of items and for no minimal
  length of \<^verbatim>\<open>content\<close>. The first violation is reported.
\<close>

definition validateBody :: "ChatRequest \<Rightarrow> SchemaError option" where
  "validateBody body =
     (case messages body of
        None \<Rightarrow> Some MissingMessages
      | Some msgs \<Rightarrow> map_option RoleNotAllowed (findFirst (\<lambda>msg. role msg \<notin> set roleEnum) msgs))"

text \<open>The text of a validation error is the validator's, not this repository's; it is
  kept apart and no statement below depends on its wording.\<close>

definition schemaErrorMessage :: "SchemaError \<Rightarrow> string" where
  "schemaErrorMessage v =
     (case v of
        MissingMessages \<Rightarrow> ''body must have required property messages''
      | RoleNotAllowed i \<Rightarrow>
          ''body/messages/'' @ decimal i @ ''/role must be equal to one of the allowed values'')"

definition schemaFailure :: "SchemaError \<Rightarrow> FastifyError" where
  "schemaFailure v =
     \<lparr>errorName = ''Error'', errorMessage = schemaErrorMessage v,
      errorStatusCode = Some 400, validation = Some v\<rparr>"

text \<open>\<^verbatim>\<open>errorHandler\<close>: the error is logged; a validation error is answered with
  status 400, any other error with its status code, or 500 if it has none.\<close>

definition errorHandler :: "Ambient \<Rightarrow> FastifyError \<Rightarrow> World \<Rightarrow> ('i, 'o) Reply \<times> World" where
  "errorHandler amb err w =
     (let w1 = w\<lparr>logged := logged w @ [errorMessage err]\<rparr> in
      case validation err of
        Some v \<Rightarrow>
          (\<lparr>status = 400,
            payload = ValidationErrorBody
              \<lparr>ErrorResponse.error = ''Validation Error'', message = errorMessage err,
               statusCode = 400, timestamp = isoTimestamp amb\<rparr> v\<rparr>,
           w1)
      | None \<Rightarrow>
          (let code = (case errorStatusCode err of
                         None \<Rightarrow> 500
                       | Some c \<Rightarrow> if c = 0 then 500 else c)
           in (\<lparr>status = code,
                 payload = ErrorBody
                   \<lparr>ErrorResponse.error = (if errorName err = [] then ''Error'' else errorName err),
                    message =
                      (if nodeEnv amb = ''production'' \<and> code = 500 then ''Internal Server Error''
                       else if errorMessage err = [] then ''An unexpected error occurred''
                       else errorMessage err),
                    statusCode = code, timestamp = isoTimestamp amb\<rparr>\<rparr>,
               w1)))"

text \<open>
  The route \<^verbatim>\<open>POST /chat\<close> as \<^verbatim>\<open>chatRoutes\<close> registers it, for a request that
  the hooks of the server (rate limit, authentication) let through: the body is checked
  against the schema first; a body that fails goes to the error handler and never to
  the handler of the route.
\<close>

definition chatRoute ::
  "Ambient \<Rightarrow> (string \<Rightarrow> ('i, 'o) QueryStream) \<Rightarrow> ChatRequest \<Rightarrow> World \<Rightarrow>
   ('i, 'o) Reply \<times> World" where
  "chatRoute amb query body w =
     (case validateBody body of
        Some v \<Rightarrow> errorHandler amb (schemaFailure v) w
      | None \<Rightarrow> chatHandler amb query body w)"

section \<open>Rate limits (rateLimit.ts, server.ts, routes)\<close>

text \<open>The two settings of the environment that the rate limiter reads, with the
  defaults of \<^verbatim>\<open>loadEnvConfig\<close>.\<close>

record EnvConfig =
  rateLimitWindowMs :: nat
  rateLimitMaxRequests :: nat

definition defaultEnv :: EnvConfig where
  "defaultEnv = \<lparr>rateLimitWindowMs = 60000, rateLimitMaxRequests = 100\<rparr>"

record RateLimit =
  maxRequests :: nat
  timeWindow :: nat

record RateLimitOptions = RateLimit +
  global :: bool
  cache :: nat
  allowList :: "string list"

text \<open>\<^verbatim>\<open>rateLimitOptions\<close> and the three entries of \<^verbatim>\<open>rateLimitConfigs\<close>;
  \<open>maxRequests\<close> is the field \<^verbatim>\<open>max\<close>. The key generator and the builder of the
  error response are left out.\<close>

definition rateLimitOptions :: "EnvConfig \<Rightarrow> RateLimitOptions" where
  "rateLimitOptions env =
     \<lparr>maxRequests = rateLimitMaxRequests env, timeWindow = rateLimitWindowMs env,
      global = True, cache = 10000, allowList = [''127.0.0.1'']\<rparr>"

definition rateLimitConfigs_chat :: RateLimit where
  "rateLimitConfigs_chat = \<lparr>maxRequests = 20, timeWindow = 60 * 1000\<rparr>"

definition rateLimitConfigs_health :: RateLimit where
  "rateLimitConfigs_health = \<lparr>maxRequests = 100, timeWindow = 60 * 1000\<rparr>"

definition rateLimitConfigs_default :: "EnvConfig \<Rightarrow> RateLimitOptions" where
  "rateLimitConfigs_default env = rateLimitOptions env"

text \<open>A registered route: method, path, and the rate limit given in its own route
  options (\<^verbatim>\<open>config.rateLimit\<close>), which the rate-limit plugin uses in place of the
  options it was registered with.\<close>

record Route =
  httpMethod :: string
  url :: string
  routeRateLimit :: "RateLimit option"

text \<open>The routes as \<^verbatim>\<open>chatRoutes\<close> and \<^verbatim>\<open>healthRoutes\<close> register them: none of
  them passes a rate limit in its options.\<close>

definition chatRoutes :: "Route list" where
  "chatRoutes =
     [\<lparr>httpMethod = ''POST'', url = ''/chat'', routeRateLimit = None\<rparr>,
      \<lparr>httpMethod = ''POST'', url = ''/chat/stream'', routeRateLimit = None\<rparr>]"

definition healthRoutes :: "Route list" where
  "healthRoutes =
     [\<lparr>httpMethod = ''GET'', url = ''/health'', routeRateLimit = None\<rparr>,
      \<lparr>httpMethod = ''GET'', url = ''/health/detailed'', routeRateLimit = None\<rparr>,
      \<lparr>httpMethod = ''GET'', url = ''/ready'', routeRateLimit = None\<rparr>,
      \<lparr>httpMethod = ''GET'', url = ''/live'', routeRateLimit = None\<rparr>]"

record Server =
  pluginRateLimit :: RateLimitOptions
  routes :: "Route list"

definition withPrefix :: "string \<Rightarrow> Route \<Rightarrow> Route" where
  "withPrefix p r = r\<lparr>url := p @ url r\<rparr>"

text \<open>\<^verbatim>\<open>createServer\<close>: the plugin is registered with \<^verbatim>\<open>rateLimitOptions\<close>, then
  both groups of routes under \<^verbatim>\<open>/api/v1\<close>. \<^verbatim>\<open>rateLimitConfigs\<close> is imported
  and not used.\<close>

definition createServer :: "EnvConfig \<Rightarrow> Server" where
  "createServer env =
     \<lparr>pluginRateLimit = rateLimitOptions env,
      routes = map (withPrefix ''/api/v1'') healthRoutes @
               map (withPrefix ''/api/v1'') chatRoutes\<rparr>"

text \<open>The limit the plugin applies to a route: the one of the route's own options if it
  has one, else the registered one if that is global, else none.\<close>

definition effectiveRateLimit :: "Server \<Rightarrow> Route \<Rightarrow> RateLimit option" where
  "effectiveRateLimit srv r =
     (case routeRateLimit r of
        Some c \<Rightarrow> Some c
      | None \<Rightarrow>
          if global (pluginRateLimit srv)
          then Some (RateLimit.truncate (pluginRateLimit srv)) else None)"

definition findRoute :: "Server \<Rightarrow> string \<Rightarrow> string \<Rightarrow> Route option" where
  "findRoute srv m u = find (\<lambda>r. httpMethod r = m \<and> url r = u) (routes srv)"

section \<open>Notions of the specification\<close>

text \<open>A runtime that yields the given events for every prompt and then ends.\<close>

definition yielding :: "('i, 'o) SDKMessage list \<Rightarrow> string \<Rightarrow> ('i, 'o) QueryStream" where
  "yielding evs prompt = \<lparr>events = evs, failure = None\<rparr>"

text \<open>The tool-start events of a sequence, in order, each as its name and input.\<close>

definition toolStarts :: "('i, 'o) SDKMessage list \<Rightarrow> (string \<times> 'i) list" where
  "toolStarts evs =
     concat (map (\<lambda>ev. case ev of ToolStart toolName inp \<Rightarrow> [(toolName, inp)] | _ \<Rightarrow> []) evs)"

text \<open>What a tool-start event fixes of its record.\<close>

definition callKey :: "('i, 'o) ToolCallRecord \<Rightarrow> string \<times> 'i" where
  "callKey tc = (name tc, input tc)"

text \<open>The role-tagged delimiter block of a message, without the blank line after it.\<close>

definition taggedBlock :: "Message \<Rightarrow> string" where
  "taggedBlock msg =
     ''<'' @ role msg @ ''>'' @ Message.content msg @ ''</'' @ role msg @ ''>''"

text \<open>The closed set of roles of the type \<^verbatim>\<open>Message\<close>.\<close>

definition knownRole :: "string \<Rightarrow> bool" where
  "knownRole r \<longleftrightarrow> r = ''user'' \<or> r = ''assistant'' \<or> r = ''system''"

section \<open>Facts about the aggregation loop\<close>

lemma findFirst_SomeD:
  "findFirst p xs = Some i \<Longrightarrow> i < length xs \<and> p (xs ! i) \<and> (\<forall>j<i. \<not> p (xs ! j))"
proof (induction xs arbitrary: i)
  case Nil
  then show ?case by simp
next
  case (Cons x xs)
  show ?case
  proof (cases "p x")
    case True
    with Cons.prems show ?thesis by simp
  next
    case False
    with Cons.prems obtain k where k: "findFirst p xs = Some k" "i = Suc k"
      by auto
    from Cons.IH [OF k(1)] False k(2) show ?thesis
      by (auto simp: nth_Cons split: nat.splits)
  qed
qed

lemma findFirst_None_iff: "findFirst p xs = None \<longleftrightarrow> (\<forall>x\<in>set xs. \<not> p x)"
  by (induction xs) auto

lemma toolEnd_callKey: "map callKey (toolEnd calls toolName out err) = map callKey calls"
proof (cases "findFirst (\<lambda>tc. name tc = toolName) calls")
  case None
  then show ?thesis by (simp add: toolEnd_def)
next
  case (Some i)
  then have "i < length calls" by (auto dest: findFirst_SomeD)
  with Some show ?thesis
    by (simp add: toolEnd_def Let_def map_update callKey_def list_update_same_conv)
qed

lemma consume_callKey:
  "map callKey (snd (consume s ev)) = map callKey (snd s) @ toolStarts [ev]"
  by (cases s; cases ev) (simp_all add: toolEnd_callKey toolStarts_def callKey_def)

lemma toolStarts_append: "toolStarts (xs @ ys) = toolStarts xs @ toolStarts ys"
  by (simp add: toolStarts_def)

lemma foldl_consume_callKey:
  "map callKey (snd (foldl consume s evs)) = map callKey (snd s) @ toolStarts evs"
proof (induction evs arbitrary: s)
  case Nil
  show ?case by (simp add: toolStarts_def)
next
  case (Cons ev evs)
  have "toolStarts (ev # evs) = toolStarts [ev] @ toolStarts evs"
    using toolStarts_append [of "[ev]" evs] by simp
  then show ?case by (simp add: Cons.IH consume_callKey)
qed

lemma aggregate_callKey: "map callKey (snd (aggregate evs)) = toolStarts evs"
  by (simp add: aggregate_def foldl_consume_callKey)

lemma toolEnd_no_record:
  "\<forall>tc\<in>set calls. name tc \<noteq> toolName \<Longrightarrow> toolEnd calls toolName out err = calls"
  by (simp add: toolEnd_def findFirst_None_iff [THEN iffD2])

lemma chat_Inr:
  assumes "initialized this" "failure (query (buildPrompt msgs)) = None"
  shows "chat amb query this msgs options w =
    (Inr \<lparr>ChatResponse.content = fst (aggregate (events (query (buildPrompt msgs)))),
          toolCalls = (if snd (aggregate (events (query (buildPrompt msgs)))) = [] then None
                       else Some (snd (aggregate (events (query (buildPrompt msgs)))))),
          usage = \<lparr>inputTokens = estimateTokens (buildPrompt msgs),
                    outputTokens = estimateTokens (fst (aggregate (events (query (buildPrompt msgs)))))\<rparr>,
          ChatResponse.sessionId =
            (if truthy (ChatOptions.sessionId options) then the (ChatOptions.sessionId options)
             else generateSessionId amb)\<rparr>,
     w\<lparr>queries := queries w @ [buildPrompt msgs]\<rparr>)"
  using assms by (simp add: chat_def Let_def split: prod.splits)

section \<open>Pairing of tool-end events with records\<close>

text \<open>
  C1. Tool-end events are to be paired with the open records of their name in the order
  of the starts. On the events \<open>start(A), start(A), end(A, output = o1),
  end(A, error = e2)\<close> the loop resolves the first record twice, with the output and then
  with the error, and never the second: \<^verbatim>\<open>find\<close> returns the first record of the name,
  open or not.
\<close>

theorem aggregate_same_name_twice:
  "snd (aggregate [ToolStart ''A'' (1::nat), ToolStart ''A'' 2,
                   ToolEnd ''A'' (Some ''o1'') None, ToolEnd ''A'' None (Some ''e2'')]) =
     [\<lparr>name = ''A'', input = 1, output = Some ''o1'', ToolCallRecord.error = Some ''e2''\<rparr>,
      \<lparr>name = ''A'', input = 2, output = None, ToolCallRecord.error = None\<rparr>]"
  by (simp add: aggregate_def toolEnd_def truthy_def)

text \<open>
  C2. No record of the final response is to have both its output and its error set. On
  the events of C1 the response of \<^verbatim>\<open>chat\<close> holds a record with both, changed by two
  tool-end events.
\<close>

theorem chat_record_with_output_and_error:
  "fst (chat \<lparr>dateNow = 1700000000000, mathRandom36 = ''0.4fzyo82mvyr'',
              isoTimestamp = ''2026-01-01T00:00:00.000Z'', nodeEnv = ''production''\<rparr>
          (yielding [ToolStart ''A'' (1::nat), ToolStart ''A'' 2,
                     ToolEnd ''A'' (Some ''o1'') None, ToolEnd ''A'' None (Some ''e2'')])
          \<lparr>initialized = True\<rparr> [\<lparr>role = ''user'', content = ''hi''\<rparr>]
          \<lparr>ChatOptions.sessionId = Some ''s1'', ChatOptions.enableTools = Some True,
           ChatOptions.skillId = None\<rparr>
          \<lparr>agentServiceInstance = None, queries = [], logged = []\<rparr>) =
     Inr \<lparr>ChatResponse.content = [],
          toolCalls = Some
            [\<lparr>name = ''A'', input = 1, output = Some ''o1'', ToolCallRecord.error = Some ''e2''\<rparr>,
             \<lparr>name = ''A'', input = 2, output = None, ToolCallRecord.error = None\<rparr>],
          usage = \<lparr>inputTokens = 4, outputTokens = 0\<rparr>,
          ChatResponse.sessionId = ''s1''\<rparr>"
  by (simp add: chat_def yielding_def buildPrompt_def trim_def appendMessage_def
      isWhiteSpace_def LF_def aggregate_def toolEnd_def estimateTokens_def truthy_def)

text \<open>
  C3. A tool-end event whose name has no open record is to be dropped, every record left
  as it was. After \<open>start(A), end(A, output = o1)\<close> the record of \<open>A\<close> is resolved and
  no record is open; a further \<open>end(A, output = o2)\<close> is not dropped: it replaces the
  output of that record.
\<close>

theorem toolEnd_for_resolved_name_overwrites:
  "snd (aggregate [ToolStart ''A'' (1::nat), ToolEnd ''A'' (Some ''o1'') None]) =
     [\<lparr>name = ''A'', input = 1, output = Some ''o1'', ToolCallRecord.error = None\<rparr>] \<and>
   snd (aggregate [ToolStart ''A'' (1::nat), ToolEnd ''A'' (Some ''o1'') None,
                   ToolEnd ''A'' (Some ''o2'') None]) =
     [\<lparr>name = ''A'', input = 1, output = Some ''o2'', ToolCallRecord.error = None\<rparr>]"
  by (simp add: aggregate_def toolEnd_def truthy_def)

text \<open>What a tool-end event with a non-empty error does to the record that \<^verbatim>\<open>find\<close>
  returns: it sets the error and nothing else, whatever output the event carries; the
  output of the record is left as it was.\<close>

lemma toolEnd_error_only:
  assumes "err = Some e" and "e \<noteq> []"
    and "findFirst (\<lambda>tc. name tc = toolName) calls = Some i"
  shows "snd (consume (fullResponse, calls) (ToolEnd toolName out err)) =
           calls[i := (calls ! i)\<lparr>ToolCallRecord.error := Some e\<rparr>] \<and>
         output (snd (consume (fullResponse, calls) (ToolEnd toolName out err)) ! i) =
           output (calls ! i) \<and>
         ToolCallRecord.error (snd (consume (fullResponse, calls) (ToolEnd toolName out err)) ! i) =
           Some e \<and>
         (output (calls ! i) = None \<longrightarrow>
            output (snd (consume (fullResponse, calls) (ToolEnd toolName out err)) ! i) = None)"
proof -
  from assms(3) have "i < length calls" by (auto dest: findFirst_SomeD)
  with assms show ?thesis by (simp add: toolEnd_def truthy_def)
qed

text \<open>
  C9. A tool-end event with a non-empty error is to resolve its record with the error
  alone, the output of the record left unset. The record that \<^verbatim>\<open>find\<close> returns may
  be resolved already: after \<open>start(A), end(A, output = o1)\<close> the event
  \<open>end(A, error = e2)\<close> leaves the record of \<open>A\<close> with the output \<open>o1\<close> and the error
  \<open>e2\<close>; and after \<open>start(A), start(A), end(A, output = o1)\<close> the event
  \<open>end(A, output = o2, error = e2)\<close> does the same to the first record, while the second,
  the open one, gets nothing.
\<close>

theorem toolEnd_error_on_resolved_record:
  "snd (aggregate [ToolStart ''A'' (1::nat), ToolEnd ''A'' (Some ''o1'') None,
                   ToolEnd ''A'' None (Some ''e2'')]) =
     [\<lparr>name = ''A'', input = 1, output = Some ''o1'', ToolCallRecord.error = Some ''e2''\<rparr>] \<and>
   snd (aggregate [ToolStart ''A'' (1::nat), ToolStart ''A'' 2, ToolEnd ''A'' (Some ''o1'') None,
                   ToolEnd ''A'' (Some ''o2'') (Some ''e2'')]) =
     [\<lparr>name = ''A'', input = 1, output = Some ''o1'', ToolCallRecord.error = Some ''e2''\<rparr>,
      \<lparr>name = ''A'', input = 2, output = None, ToolCallRecord.error = None\<rparr>]"
  by (simp add: aggregate_def toolEnd_def truthy_def)

text \<open>
  C10. When \<^verbatim>\<open>chat\<close> returns, the tool-call list of its response has one record for
  each tool-start event, with its name and input and in the order of the events; a
  tool-end event leaves the names and inputs of the list, hence its length, as they
  were; and the list is omitted exactly when there was no tool-start event.
\<close>

theorem chat_toolCalls_one_per_start:
  assumes "initialized this" and "failure (query (buildPrompt msgs)) = None"
  shows "\<exists>resp. fst (chat amb query this msgs options w) = Inr resp \<and>
           map callKey (case toolCalls resp of None \<Rightarrow> [] | Some calls \<Rightarrow> calls) =
             toolStarts (events (query (buildPrompt msgs))) \<and>
           (toolCalls resp = None \<longleftrightarrow> toolStarts (events (query (buildPrompt msgs))) = []) \<and>
           map callKey (snd (consume (fullResponse, calls0) (ToolEnd toolName out err))) =
             map callKey calls0"
proof -
  let ?evs = "events (query (buildPrompt msgs))"
  have key: "map callKey (snd (aggregate ?evs)) = toolStarts ?evs"
    by (rule aggregate_callKey)
  then have empty: "snd (aggregate ?evs) = [] \<longleftrightarrow> toolStarts ?evs = []"
    by (metis map_is_Nil_conv)
  show ?thesis
    using key empty assms by (simp add: chat_Inr toolEnd_callKey)
qed

theorem chat_toolCalls_one_per_start_witness:
  "initialized \<lparr>initialized = True\<rparr> \<and>
   failure (yielding [ToolStart ''A'' (1::nat), AssistantMessage (Some [TextBlock ''ok'']),
                      ToolStart ''B'' 2, ToolEnd ''B'' (Some ''o'') None]
             (buildPrompt [\<lparr>role = ''user'', content = ''hi''\<rparr>])) = None \<and>
   (\<exists>resp. fst (chat \<lparr>dateNow = 0, mathRandom36 = ''0.abc'', isoTimestamp = [], nodeEnv = []\<rparr>
                   (yielding [ToolStart ''A'' (1::nat), AssistantMessage (Some [TextBlock ''ok'']),
                              ToolStart ''B'' 2, ToolEnd ''B'' (Some ''o'') None])
                   \<lparr>initialized = True\<rparr> [\<lparr>role = ''user'', content = ''hi''\<rparr>]
                   \<lparr>ChatOptions.sessionId = None, ChatOptions.enableTools = None,
                    ChatOptions.skillId = None\<rparr>
                   \<lparr>agentServiceInstance = None, queries = [], logged = []\<rparr>) = Inr resp \<and>
           map callKey (case toolCalls resp of None \<Rightarrow> [] | Some calls \<Rightarrow> calls) =
             [(''A'', 1), (''B'', 2)] \<and>
           toolCalls resp \<noteq> None)"
  using chat_toolCalls_one_per_start
    [of "\<lparr>initialized = True\<rparr>"
        "yielding [ToolStart ''A'' (1::nat), AssistantMessage (Some [TextBlock ''ok'']),
                   ToolStart ''B'' 2, ToolEnd ''B'' (Some ''o'') None]"
        "[\<lparr>role = ''user'', content = ''hi''\<rparr>]"
        "\<lparr>dateNow = 0, mathRandom36 = ''0.abc'', isoTimestamp = [], nodeEnv = []\<rparr>"
        "\<lparr>ChatOptions.sessionId = None, ChatOptions.enableTools = None, ChatOptions.skillId = None\<rparr>"
        "\<lparr>agentServiceInstance = None, queries = [], logged = []\<rparr>"
        "[]" "[]" "''A''" None None]
  by (auto simp: toolStarts_def yielding_def)

section \<open>Session ids\<close>

text \<open>
  C4 as stated: a session id supplied by the caller, any string, comes back unchanged.
  It fails for the empty string, which \<^verbatim>\<open>||\<close> treats as absent: the response
  carries a minted id.
\<close>

theorem chat_empty_sessionId_not_echoed:
  "fst (chat \<lparr>dateNow = 1700000000000, mathRandom36 = ''0.4fzyo82mvyr'',
              isoTimestamp = ''2026-01-01T00:00:00.000Z'', nodeEnv = ''production''\<rparr>
          (yielding [AssistantMessage (Some [TextBlock ''hello'']) :: (nat, string) SDKMessage])
          \<lparr>initialized = True\<rparr> [\<lparr>role = ''user'', content = ''hi''\<rparr>]
          \<lparr>ChatOptions.sessionId = Some [], ChatOptions.enableTools = Some True,
           ChatOptions.skillId = None\<rparr>
          \<lparr>agentServiceInstance = None, queries = [], logged = []\<rparr>) =
     Inr \<lparr>ChatResponse.content = ''hello'', toolCalls = None,
          usage = \<lparr>inputTokens = 4, outputTokens = 2\<rparr>,
          ChatResponse.sessionId = ''sess_1700000000000_4fzyo82mv''\<rparr>"
  by (simp add: chat_def yielding_def buildPrompt_def trim_def appendMessage_def
      isWhiteSpace_def LF_def aggregate_def appendText_def estimateTokens_def
      generateSessionId_def decimal.simps truthy_def)

text \<open>
  C4, amended. When \<^verbatim>\<open>chat\<close> returns: a non-empty session id supplied by the caller
  is the session id of the response, unchanged; with no session id, or the empty one,
  the response carries the minted id \<open>sess_\<close>, the decimal clock value, \<open>_\<close>, and the
  code units 2 to 10 of the random number's base-36 text.
\<close>

theorem chat_sessionId:
  assumes "initialized this" and "failure (query (buildPrompt msgs)) = None"
  shows "\<exists>resp. fst (chat amb query this msgs options w) = Inr resp \<and>
           ChatResponse.sessionId resp =
             (case ChatOptions.sessionId options of
                Some s \<Rightarrow>
                  if s \<noteq> [] then s
                  else ''sess_'' @ decimal (dateNow amb) @ ''_'' @ take 9 (drop 2 (mathRandom36 amb))
              | None \<Rightarrow>
                  ''sess_'' @ decimal (dateNow amb) @ ''_'' @ take 9 (drop 2 (mathRandom36 amb)))"
  using assms by (simp add: chat_Inr truthy_def generateSessionId_def split: option.splits)

theorem chat_sessionId_witness:
  "initialized \<lparr>initialized = True\<rparr> \<and>
   failure ((yielding ([] :: (nat, string) SDKMessage list))
             (buildPrompt [\<lparr>role = ''user'', content = ''hi''\<rparr>])) = None \<and>
   (\<exists>resp. fst (chat \<lparr>dateNow = 0, mathRandom36 = ''0.abc'', isoTimestamp = [], nodeEnv = []\<rparr>
                   (yielding ([] :: (nat, string) SDKMessage list))
                   \<lparr>initialized = True\<rparr> [\<lparr>role = ''user'', content = ''hi''\<rparr>]
                   \<lparr>ChatOptions.sessionId = Some ''my session #1'', ChatOptions.enableTools = None,
                    ChatOptions.skillId = None\<rparr>
                   \<lparr>agentServiceInstance = None, queries = [], logged = []\<rparr>) = Inr resp \<and>
           ChatResponse.sessionId resp = ''my session #1'')"
  using chat_sessionId
    [of "\<lparr>initialized = True\<rparr>"
        "yielding ([] :: (nat, string) SDKMessage list)"
        "[\<lparr>role = ''user'', content = ''hi''\<rparr>]"
        "\<lparr>dateNow = 0, mathRandom36 = ''0.abc'', isoTimestamp = [], nodeEnv = []\<rparr>"
        "\<lparr>ChatOptions.sessionId = Some ''my session #1'', ChatOptions.enableTools = None,
          ChatOptions.skillId = None\<rparr>"
        "\<lparr>agentServiceInstance = None, queries = [], logged = []\<rparr>"]
  by (simp add: yielding_def)

section \<open>Request validation\<close>

lemma validateBody_None_iff:
  "messages body = Some msgs \<Longrightarrow>
   validateBody body = None \<longleftrightarrow> (\<forall>m\<in>set msgs. role m \<in> set roleEnum)"
  by (simp add: validateBody_def findFirst_None_iff)






text \<open>A body without the \<^verbatim>\<open>messages\<close> field is rejected by the schema.\<close>

lemma chatRoute_missing_messages:
  "messages body = None \<Longrightarrow>
   chatRoute amb query body w = errorHandler amb (schemaFailure MissingMessages) w"
  by (simp add: chatRoute_def validateBody_def)

text \<open>An error of the event sequence fails the whole call: no response is returned.\<close>

lemma chat_failure:
  "initialized this \<Longrightarrow> failure (query (buildPrompt msgs)) = Some e \<Longrightarrow>
   fst (chat amb query this msgs options w) = Inl e"
  by (simp add: chat_def Let_def split: prod.splits)

text \<open>For comparison: a body that passes the schema and the checks of the handler hands
  exactly one prompt to the runtime.\<close>

lemma chatRoute_valid_queries:
  assumes "messages body = Some msgs" and "msgs \<noteq> []"
    and "\<forall>m\<in>set msgs. role m \<in> set roleEnum \<and> Message.content m \<noteq> []"
    and "\<forall>s. agentServiceInstance w = Some s \<longrightarrow> initialized s"
  shows "queries (snd (chatRoute amb query body w)) = queries w @ [buildPrompt msgs]"
proof -
  have "validateBody body = None"
    using assms(1,3) validateBody_None_iff [OF assms(1)] by simp
  moreover have "\<forall>m\<in>set msgs. role m \<noteq> []"
    using assms(3) by (auto simp: roleEnum_def)
  ultimately show ?thesis
    using assms
    by (auto simp: chatRoute_def chatHandler_def list_ex_iff getAgentService_def
        newAgentService_def chat_def Let_def split: option.splits prod.splits sum.splits)
qed

section \<open>Prompt construction\<close>

lemma appendMessage_known:
  "knownRole (role msg) \<Longrightarrow> appendMessage prompt msg = prompt @ taggedBlock msg @ [LF, LF]"
  by (auto simp: knownRole_def appendMessage_def taggedBlock_def)

lemma foldl_appendMessage:
  "\<forall>m\<in>set msgs. knownRole (role m) \<Longrightarrow>
   foldl appendMessage prompt msgs = prompt @ concat (map (\<lambda>m. taggedBlock m @ [LF, LF]) msgs)"
  by (induction msgs arbitrary: prompt) (simp_all add: appendMessage_known)

lemma trim_strips_final_blank_line:
  assumes "s \<noteq> []" and "\<not> isWhiteSpace (hd s)" and "\<not> isWhiteSpace (last s)"
  shows "trim (s @ [LF, LF]) = s"
proof -
  have front: "dropWhile isWhiteSpace (s @ [LF, LF]) = s @ [LF, LF]"
    using assms(1,2) by (cases s) simp_all
  have ws: "isWhiteSpace LF" by (simp add: isWhiteSpace_def LF_def)
  have "dropWhile isWhiteSpace (rev (s @ [LF, LF])) = dropWhile isWhiteSpace (rev s)"
    using ws by simp
  also have "\<dots> = rev s"
    using assms(1,3) by (cases "rev s") (simp_all add: last_rev [symmetric] hd_rev)
  finally show ?thesis by (simp add: trim_def front)
qed

lemma taggedBlock_edges:
  "taggedBlock m \<noteq> [] \<and> hd (taggedBlock m) = CHR ''<'' \<and> last (taggedBlock m) = CHR ''>''"
  by (simp add: taggedBlock_def)

lemma blocks_split:
  assumes "msgs \<noteq> []"
  shows "\<exists>s. concat (map (\<lambda>m. taggedBlock m @ [LF, LF]) msgs) = s @ [LF, LF] \<and>
             s \<noteq> [] \<and> hd s = CHR ''<'' \<and> last s = CHR ''>''"
proof -
  from assms obtain m ms where msgs: "msgs = m # ms" by (cases msgs) auto
  show ?thesis
  proof (cases "ms = []")
    case True
    with msgs taggedBlock_edges [of m] show ?thesis by auto
  next
    case False
    let ?blk = "\<lambda>m. taggedBlock m @ [LF, LF]"
    let ?s = "concat (map ?blk (butlast msgs)) @ taggedBlock (last msgs)"
    have "msgs = butlast msgs @ [last msgs]" using assms by simp
    then have "concat (map ?blk msgs) = concat (map ?blk (butlast msgs @ [last msgs]))"
      by simp
    then have eq: "concat (map ?blk msgs) = ?s @ [LF, LF]" by simp
    have bl: "butlast msgs = m # butlast ms" using msgs False by simp
    have "hd ?s = CHR ''<''"
      using taggedBlock_edges [of m] by (simp add: bl taggedBlock_def)
    moreover have "last ?s = CHR ''>''"
      using taggedBlock_edges [of "last msgs"] by simp
    moreover have "?s \<noteq> []" using taggedBlock_edges [of "last msgs"] by simp
    ultimately show ?thesis using eq by blast
  qed
qed

text \<open>
  C7. For messages with roles of the closed set, the prompt is the trimmed concatenation
  of one block per message, in the order of the messages, each block the content of its
  message between the tags of its role and followed by a blank line; trimming removes
  the blank line after the last block and nothing else.
\<close>

theorem buildPrompt_order_preserving:
  assumes "\<forall>m\<in>set msgs. knownRole (role m)"
  shows "buildPrompt msgs = trim (concat (map (\<lambda>m. taggedBlock m @ [LF, LF]) msgs)) \<and>
         length (map (\<lambda>m. taggedBlock m @ [LF, LF]) msgs) = length msgs \<and>
         (msgs \<noteq> [] \<longrightarrow>
            buildPrompt msgs @ [LF, LF] = concat (map (\<lambda>m. taggedBlock m @ [LF, LF]) msgs))"
proof -
  let ?blocks = "concat (map (\<lambda>m. taggedBlock m @ [LF, LF]) msgs)"
  have bp: "buildPrompt msgs = trim ?blocks"
    using assms by (simp add: buildPrompt_def foldl_appendMessage)
  have "buildPrompt msgs @ [LF, LF] = ?blocks" if "msgs \<noteq> []"
  proof -
    from blocks_split [OF that] obtain s where
      s: "?blocks = s @ [LF, LF]" "s \<noteq> []" "hd s = CHR ''<''" "last s = CHR ''>''"
      by blast
    have "trim (s @ [LF, LF]) = s"
      using s(2-4) by (intro trim_strips_final_blank_line) (simp_all add: isWhiteSpace_def)
    with bp s(1) show ?thesis by simp
  qed
  with bp show ?thesis by simp
qed

theorem buildPrompt_order_preserving_witness:
  "knownRole (role \<lparr>role = ''system'', content = ''be brief''\<rparr>) \<and>
   knownRole (role \<lparr>role = ''user'', content = '' hi ''\<rparr>) \<and>
   buildPrompt [\<lparr>role = ''system'', content = ''be brief''\<rparr>, \<lparr>role = ''user'', content = '' hi ''\<rparr>] =
     ''<system>be brief</system>'' @ [LF, LF] @ ''<user> hi </user>''"
proof -
  let ?msgs = "[\<lparr>role = ''system'', content = ''be brief''\<rparr>, \<lparr>role = ''user'', content = '' hi ''\<rparr>]"
  have known: "\<forall>m\<in>set ?msgs. knownRole (role m)"
    by (simp add: knownRole_def)
  have "?msgs \<noteq> []" by simp
  with buildPrompt_order_preserving [OF known]
  have "buildPrompt ?msgs @ [LF, LF] = concat (map (\<lambda>m. taggedBlock m @ [LF, LF]) ?msgs)"
    by blast
  then have "buildPrompt ?msgs = ''<system>be brief</system>'' @ [LF, LF] @ ''<user> hi </user>''"
    by (simp add: taggedBlock_def)
  with known show ?thesis by simp
qed

section \<open>Token estimates\<close>

text \<open>
  C8. The estimate of the empty text is 0; the estimate of a text is its length divided
  by 4 and rounded up: the least integer whose fourfold is not below the length.
\<close>

theorem estimateTokens_ceiling:
  "estimateTokens [] = 0 \<and>
   estimateTokens t = int ((length t + 3) div 4) \<and>
   int (length t) \<le> 4 * estimateTokens t \<and> 4 * estimateTokens t < int (length t) + 4"
proof -
  have "estimateTokens t = int ((length t + 3) div 4)"
    unfolding estimateTokens_def by linarith
  moreover have "estimateTokens [] = 0" by (simp add: estimateTokens_def)
  ultimately show ?thesis by auto
qed

section \<open>Rate limits of the routes\<close>

lemma routes_use_plugin_limit:
  "r \<in> set (routes (createServer env)) \<Longrightarrow>
   effectiveRateLimit (createServer env) r =
     Some \<lparr>maxRequests = rateLimitMaxRequests env, timeWindow = rateLimitWindowMs env\<rparr>"
  by (auto simp: createServer_def effectiveRateLimit_def healthRoutes_def chatRoutes_def
      withPrefix_def rateLimitOptions_def RateLimit.truncate_def)

text \<open>
  C5. The chat route is to have a stricter limit than the global one and the health
  routes a more lenient one. With the default environment every registered route,
  \<^verbatim>\<open>POST /api/v1/chat\<close> among them, has the global limit of 100 requests per window:
  the limit of 20 of \<^verbatim>\<open>rateLimitConfigs.chat\<close> is attached to no route, and the one
  of \<^verbatim>\<open>rateLimitConfigs.health\<close> is the global default itself.
\<close>

theorem chat_route_limit_is_global_limit:
  "Option.bind (findRoute (createServer defaultEnv) ''POST'' ''/api/v1/chat'')
     (effectiveRateLimit (createServer defaultEnv)) =
     Some \<lparr>maxRequests = 100, timeWindow = 60000\<rparr> \<and>
   map (map_option maxRequests \<circ> effectiveRateLimit (createServer defaultEnv))
     (routes (createServer defaultEnv)) =
     [Some 100, Some 100, Some 100, Some 100, Some 100, Some 100] \<and>
   maxRequests rateLimitConfigs_chat = 20 \<and>
   maxRequests rateLimitConfigs_health = maxRequests (rateLimitConfigs_default defaultEnv)"
  by (simp add: findRoute_def createServer_def effectiveRateLimit_def healthRoutes_def
      chatRoutes_def withPrefix_def rateLimitOptions_def defaultEnv_def
      rateLimitConfigs_chat_def rateLimitConfigs_health_def rateLimitConfigs_default_def
      RateLimit.truncate_def)

end
